theory Spec2Isabelle
  imports Main "HOL-Library.Word"
begin

unbundle bit_operations_syntax

section \<open>Types the board header refers to\<close>

text \<open>
  Modelled from the spec: the board header \<^verbatim>\<open>stmhal/boards/PYBV3/mpconfigboard.h\<close> names
  pin objects (\<^verbatim>\<open>pin_A8\<close>, ...), reads their members \<^verbatim>\<open>gpio\<close> and \<^verbatim>\<open>pin_mask\<close>, and uses the
  HAL constants \<^verbatim>\<open>GPIO_PULLUP\<close>, \<^verbatim>\<open>GPIO_PULLDOWN\<close>, \<^verbatim>\<open>GPIO_MODE_IT_FALLING\<close>,
  \<^verbatim>\<open>GPIO_MODE_OUTPUT_PP\<close> and \<^verbatim>\<open>GPIO_PIN_SET\<close>; their declarations are not part of the
  header. A pin reference is a port together with a pin number (the spec's PinRef), and its
  mask is the single bit of that number.
\<close>

datatype gpio_port = GPIOA | GPIOB | GPIOC | GPIOD | GPIOE | GPIOF | GPIOG | GPIOH | GPIOI

record pin_obj =
  gpio :: gpio_port
  pin :: nat
  pin_mask :: "32 word"

definition PIN :: "gpio_port \<Rightarrow> nat \<Rightarrow> pin_obj" where
  "PIN p n = \<lparr>gpio = p, pin = n, pin_mask = push_bit n 1\<rparr>"

definition pin_A8 :: pin_obj where "pin_A8 = PIN GPIOA 8"
definition pin_A10 :: pin_obj where "pin_A10 = PIN GPIOA 10"
definition pin_A13 :: pin_obj where "pin_A13 = PIN GPIOA 13"
definition pin_C4 :: pin_obj where "pin_C4 = PIN GPIOC 4"
definition pin_C5 :: pin_obj where "pin_C5 = PIN GPIOC 5"
definition pin_C13 :: pin_obj where "pin_C13 = PIN GPIOC 13"

datatype gpio_pull = GPIO_NOPULL | GPIO_PULLUP | GPIO_PULLDOWN

datatype gpio_mode = GPIO_MODE_OUTPUT_PP | GPIO_MODE_OUTPUT_OD
  | GPIO_MODE_IT_RISING | GPIO_MODE_IT_FALLING | GPIO_MODE_IT_RISING_FALLING

text \<open>The two raw levels a sampled pin can have (the HAL's \<^verbatim>\<open>GPIO_PinState\<close>).\<close>

definition GPIO_PIN_RESET :: int where "GPIO_PIN_RESET = 0"
definition GPIO_PIN_SET :: int where "GPIO_PIN_SET = 1"

datatype mp_obj_type = pyb_led_type

text \<open>One initialiser of the LED table: \<^verbatim>\<open>{{&pyb_led_type}, nb_led, pin mapping}\<close>.\<close>

record pyb_led_obj =
  base :: mp_obj_type
  led_id :: nat
  led_pin :: pin_obj

section \<open>The board header\<close>

subsection \<open>User switch\<close>

definition MICROPY_HW_USRSW_PIN :: pin_obj where
  "MICROPY_HW_USRSW_PIN = pin_A13"

definition MICROPY_HW_USRSW_PULL :: gpio_pull where
  "MICROPY_HW_USRSW_PULL = GPIO_PULLUP"

definition MICROPY_HW_USRSW_EXTI_MODE :: gpio_mode where
  "MICROPY_HW_USRSW_EXTI_MODE = GPIO_MODE_IT_FALLING"

definition MICROPY_HW_USRSW_PRESSED :: int where
  "MICROPY_HW_USRSW_PRESSED = 0"

subsection \<open>LEDs\<close>

definition PYB_LED_STORAGE1 :: nat where "PYB_LED_STORAGE1 = 1"
definition PYB_LED_STORAGE2 :: nat where "PYB_LED_STORAGE2 = 2"
definition PYB_LED_ERROR1 :: nat where "PYB_LED_ERROR1 = 1"
definition PYB_LED_ERROR2 :: nat where "PYB_LED_ERROR2 = 2"

definition MICROPY_HW_LED_MAPPING :: "pyb_led_obj list" where
  "MICROPY_HW_LED_MAPPING =
    [\<lparr>base = pyb_led_type, led_id = 1, led_pin = pin_A8\<rparr>,
     \<lparr>base = pyb_led_type, led_id = 2, led_pin = pin_A10\<rparr>,
     \<lparr>base = pyb_led_type, led_id = 3, led_pin = pin_C4\<rparr>,
     \<lparr>base = pyb_led_type, led_id = 3, led_pin = pin_C5\<rparr>]"

definition MICROPY_HW_LED_OTYPE :: gpio_mode where
  "MICROPY_HW_LED_OTYPE = GPIO_MODE_OUTPUT_PP"

subsection \<open>SD card detect switch\<close>

definition MICROPY_HW_SDCARD_DETECT_PIN :: pin_obj where
  "MICROPY_HW_SDCARD_DETECT_PIN = pin_C13"

definition MICROPY_HW_SDCARD_DETECT_PULL :: gpio_pull where
  "MICROPY_HW_SDCARD_DETECT_PULL = GPIO_PULLDOWN"

definition MICROPY_HW_SDCARD_DETECT_PRESENT :: int where
  "MICROPY_HW_SDCARD_DETECT_PRESENT = GPIO_PIN_SET"

subsection \<open>The LED operations as register accesses\<close>

text \<open>
  Modelled from the spec: the members of the port's register block (\<^verbatim>\<open>GPIO_TypeDef\<close>) and
  what the port does on an access are not part of the header. A port's set and clear
  registers are two distinct write-only fields: a store to the set half \<^verbatim>\<open>BSRRL\<close> raises, in
  the output data register, the bits that are 1 in the stored value, a store to the reset
  half \<^verbatim>\<open>BSRRH\<close> lowers them; both halves are 16 bits wide. The input data register is
  read-only, every other field keeps what is stored to it, and a load changes nothing.
\<close>

datatype gpio_reg = MODER | OTYPER | OSPEEDR | PUPDR | IDR | ODR | BSRRL | BSRRH | LCKR
  | AFRL | AFRH

datatype gpio_access = Load gpio_port gpio_reg | Store gpio_port gpio_reg "32 word"

type_synonym gpio_state = "gpio_port \<Rightarrow> gpio_reg \<Rightarrow> 32 word"

fun reg_store :: "(gpio_reg \<Rightarrow> 32 word) \<Rightarrow> gpio_reg \<Rightarrow> 32 word \<Rightarrow> gpio_reg \<Rightarrow> 32 word" where
  "reg_store regs BSRRL v = regs(ODR := regs ODR OR take_bit 16 v)"
| "reg_store regs BSRRH v = regs(ODR := regs ODR AND NOT (take_bit 16 v))"
| "reg_store regs IDR v = regs"
| "reg_store regs r v = regs(r := v)"

fun gpio_step :: "gpio_state \<Rightarrow> gpio_access \<Rightarrow> gpio_state" where
  "gpio_step st (Load g r) = st"
| "gpio_step st (Store g r v) = st(g := reg_store (st g) r v)"

definition run :: "gpio_access list \<Rightarrow> gpio_state \<Rightarrow> gpio_state" where
  "run ops st = foldl gpio_step st ops"

fun is_Store :: "gpio_access \<Rightarrow> bool" where
  "is_Store (Store g r v) = True"
| "is_Store (Load g r) = False"

text \<open>The electrical level of an output pin: its bit of the port's output data register.\<close>

definition pin_level :: "gpio_state \<Rightarrow> pin_obj \<Rightarrow> bool" where
  "pin_level st p = bit (st (gpio p) ODR) (pin p)"

text \<open>
  \<^verbatim>\<open>#define MICROPY_HW_LED_ON(pin)  (pin->gpio->BSRRH = pin->pin_mask)\<close> and
  \<^verbatim>\<open>#define MICROPY_HW_LED_OFF(pin) (pin->gpio->BSRRL = pin->pin_mask)\<close>: each macro is one
  assignment to one member of the port's register block, given here as the register
  accesses it performs, in order.
\<close>

definition MICROPY_HW_LED_ON :: "pin_obj \<Rightarrow> gpio_access list" where
  "MICROPY_HW_LED_ON p = [Store (gpio p) BSRRH (pin_mask p)]"

definition MICROPY_HW_LED_OFF :: "pin_obj \<Rightarrow> gpio_access list" where
  "MICROPY_HW_LED_OFF p = [Store (gpio p) BSRRL (pin_mask p)]"

definition access_reg :: "gpio_access \<Rightarrow> gpio_reg" where
  "access_reg a = (case a of Load g r \<Rightarrow> r | Store g r v \<Rightarrow> r)"

text \<open>The entries of the LED table that carry a given logical index, in table order.\<close>

definition led_entries :: "nat \<Rightarrow> pyb_led_obj list" where
  "led_entries i = filter (\<lambda>e. led_id e = i) MICROPY_HW_LED_MAPPING"

text \<open>
  A pin whose number lies within the 16 pins of a port and whose mask is the single bit of
  that number. Every pin built by \<^const>\<open>PIN\<close> with a number below 16 is one.
\<close>

definition single_bit_pin :: "pin_obj \<Rightarrow> bool" where
  "single_bit_pin p = (pin p < 16 \<and> pin_mask p = push_bit (pin p) 1)"

section \<open>The LED table\<close>

lemmas pin_defs = pin_A8_def pin_A10_def pin_A13_def pin_C4_def pin_C5_def pin_C13_def PIN_def

lemma led_ids: "map led_id MICROPY_HW_LED_MAPPING = [1, 2, 3, 3]"
  by (simp add: MICROPY_HW_LED_MAPPING_def)

lemma led_pins: "map led_pin MICROPY_HW_LED_MAPPING = [pin_A8, pin_A10, pin_C4, pin_C5]"
  by (simp add: MICROPY_HW_LED_MAPPING_def)

text \<open>
  C1: the LED table has four entries, and its i-th entry is meant to carry the logical
  index i. The table does have four entries, but the indices it carries are 1, 2, 3, 3: the
  fourth entry, bound to \<^verbatim>\<open>pin_C5\<close>, repeats the index 3 of the third.
\<close>

theorem led_mapping_fourth_index:
  "length MICROPY_HW_LED_MAPPING = 4
   \<and> map led_id MICROPY_HW_LED_MAPPING = [1, 2, 3, 3]
   \<and> led_id (MICROPY_HW_LED_MAPPING ! 3) = 3
   \<and> led_pin (MICROPY_HW_LED_MAPPING ! 3) = pin_C5
   \<and> led_id (MICROPY_HW_LED_MAPPING ! 3) \<noteq> 4"
  by (simp add: MICROPY_HW_LED_MAPPING_def)

text \<open>
  C2: each of the four mandatory roles (storage primary and secondary, error primary and
  secondary) resolves to a logical index that occurs in the LED table, and that lies within
  the positions 1..4 of the table.
\<close>

theorem mandatory_roles_resolve:
  "set [PYB_LED_STORAGE1, PYB_LED_STORAGE2, PYB_LED_ERROR1, PYB_LED_ERROR2]
     \<subseteq> led_id ` set MICROPY_HW_LED_MAPPING
   \<and> set [PYB_LED_STORAGE1, PYB_LED_STORAGE2, PYB_LED_ERROR1, PYB_LED_ERROR2]
     \<subseteq> {1 .. length MICROPY_HW_LED_MAPPING}
   \<and> led_entries PYB_LED_STORAGE1 \<noteq> [] \<and> led_entries PYB_LED_STORAGE2 \<noteq> []
   \<and> led_entries PYB_LED_ERROR1 \<noteq> [] \<and> led_entries PYB_LED_ERROR2 \<noteq> []"
  by (simp add: PYB_LED_STORAGE1_def PYB_LED_STORAGE2_def PYB_LED_ERROR1_def
      PYB_LED_ERROR2_def led_entries_def MICROPY_HW_LED_MAPPING_def)

text \<open>
  C3: the error-primary role and the storage-primary role resolve to the same logical
  index, hence to the same table entry and the same pin (\<^verbatim>\<open>pin_A8\<close>), so that
  \<^verbatim>\<open>MICROPY_HW_LED_ON\<close> performs the same store for both, whatever function \<open>resolve\<close> looks
  an index up in the table and whatever the state of the ports; likewise error-secondary
  and storage-secondary (\<^verbatim>\<open>pin_A10\<close>).
\<close>

theorem error_roles_alias_storage_roles:
  "PYB_LED_ERROR1 = PYB_LED_STORAGE1
   \<and> PYB_LED_ERROR2 = PYB_LED_STORAGE2
   \<and> led_entries PYB_LED_ERROR1 = led_entries PYB_LED_STORAGE1
   \<and> map led_pin (led_entries PYB_LED_STORAGE1) = [pin_A8]
   \<and> led_entries PYB_LED_ERROR2 = led_entries PYB_LED_STORAGE2
   \<and> map led_pin (led_entries PYB_LED_STORAGE2) = [pin_A10]
   \<and> MICROPY_HW_LED_ON (resolve MICROPY_HW_LED_MAPPING PYB_LED_ERROR1)
       = MICROPY_HW_LED_ON (resolve MICROPY_HW_LED_MAPPING PYB_LED_STORAGE1)
   \<and> MICROPY_HW_LED_ON (resolve MICROPY_HW_LED_MAPPING PYB_LED_ERROR2)
       = MICROPY_HW_LED_ON (resolve MICROPY_HW_LED_MAPPING PYB_LED_STORAGE2)
   \<and> run (concat (map (MICROPY_HW_LED_ON \<circ> led_pin) (led_entries PYB_LED_ERROR1))) st
       = run (concat (map (MICROPY_HW_LED_ON \<circ> led_pin) (led_entries PYB_LED_STORAGE1))) st
   \<and> run (concat (map (MICROPY_HW_LED_ON \<circ> led_pin) (led_entries PYB_LED_ERROR2))) st
       = run (concat (map (MICROPY_HW_LED_ON \<circ> led_pin) (led_entries PYB_LED_STORAGE2))) st
   \<and> concat (map (MICROPY_HW_LED_ON \<circ> led_pin) (led_entries PYB_LED_ERROR1))
       = [Store GPIOA BSRRH 0x100]
   \<and> concat (map (MICROPY_HW_LED_ON \<circ> led_pin) (led_entries PYB_LED_ERROR2))
       = [Store GPIOA BSRRH 0x400]"
  by (simp add: PYB_LED_STORAGE1_def PYB_LED_STORAGE2_def PYB_LED_ERROR1_def
      PYB_LED_ERROR2_def led_entries_def MICROPY_HW_LED_MAPPING_def MICROPY_HW_LED_ON_def
      pin_defs)

section \<open>The digital inputs\<close>

text \<open>
  C4: the user switch is configured with a pull-up and is active low: a raw sampled level
  equals \<^verbatim>\<open>MICROPY_HW_USRSW_PRESSED\<close> exactly when it is 0, so level 0 reads as pressed and
  level 1 as not pressed.
\<close>

theorem usrsw_pressed_level:
  "MICROPY_HW_USRSW_PULL = GPIO_PULLUP
   \<and> (0 = MICROPY_HW_USRSW_PRESSED)
   \<and> (1 \<noteq> MICROPY_HW_USRSW_PRESSED)
   \<and> GPIO_PIN_RESET = MICROPY_HW_USRSW_PRESSED
   \<and> GPIO_PIN_SET \<noteq> MICROPY_HW_USRSW_PRESSED
   \<and> ((level = MICROPY_HW_USRSW_PRESSED) = (level = 0))"
  by (simp add: MICROPY_HW_USRSW_PULL_def MICROPY_HW_USRSW_PRESSED_def GPIO_PIN_RESET_def
      GPIO_PIN_SET_def)

text \<open>
  C5: the SD card detect line is configured with a pull-down and reads present at raw
  level 1: a raw sampled level equals \<^verbatim>\<open>MICROPY_HW_SDCARD_DETECT_PRESENT\<close> exactly when it
  is 1, so level 0 reads as no card present.
\<close>

theorem sdcard_present_level:
  "MICROPY_HW_SDCARD_DETECT_PULL = GPIO_PULLDOWN
   \<and> MICROPY_HW_SDCARD_DETECT_PRESENT = GPIO_PIN_SET
   \<and> (0 \<noteq> MICROPY_HW_SDCARD_DETECT_PRESENT)
   \<and> (1 = MICROPY_HW_SDCARD_DETECT_PRESENT)
   \<and> ((level = MICROPY_HW_SDCARD_DETECT_PRESENT) = (level = 1))"
  by (simp add: MICROPY_HW_SDCARD_DETECT_PULL_def MICROPY_HW_SDCARD_DETECT_PRESENT_def
      GPIO_PIN_SET_def)

section \<open>The LED operations\<close>

lemma led_pins_single_bit:
  "e \<in> set MICROPY_HW_LED_MAPPING \<Longrightarrow> single_bit_pin (led_pin e)"
  by (auto simp add: MICROPY_HW_LED_MAPPING_def single_bit_pin_def pin_defs)

lemma bit_mask16:
  "single_bit_pin p \<Longrightarrow> bit (take_bit 16 (pin_mask p)) k \<longleftrightarrow> k = pin p"
  by (auto simp add: single_bit_pin_def bit_simps)

lemma run_append: "run (a @ b) st = run b (run a st)"
  by (simp add: run_def)

lemma run_ON:
  "run (MICROPY_HW_LED_ON p) st =
     st(gpio p := (st (gpio p))(ODR := st (gpio p) ODR AND NOT (take_bit 16 (pin_mask p))))"
  by (simp add: run_def MICROPY_HW_LED_ON_def)

lemma run_OFF:
  "run (MICROPY_HW_LED_OFF p) st =
     st(gpio p := (st (gpio p))(ODR := st (gpio p) ODR OR take_bit 16 (pin_mask p)))"
  by (simp add: run_def MICROPY_HW_LED_OFF_def)

lemma level_after_ON:
  "single_bit_pin p \<Longrightarrow> \<not> pin_level (run (MICROPY_HW_LED_ON p) st) p"
  by (simp add: run_ON pin_level_def bit_and_iff bit_not_iff bit_mask16)

lemma level_after_OFF:
  "single_bit_pin p \<Longrightarrow> pin_level (run (MICROPY_HW_LED_OFF p) st) p"
  by (simp add: run_OFF pin_level_def bit_or_iff bit_mask16)

lemma or_mask_absorb:
  fixes x m :: "32 word"
  shows "((x AND NOT m) OR m) = x OR m" and "((x OR m) AND NOT m) = x AND NOT m"
  by (auto simp add: bit_eq_iff bit_simps)

lemma set_bit_idle:
  assumes "single_bit_pin p" and "pin_level st p"
  shows "st (gpio p) ODR OR take_bit 16 (pin_mask p) = st (gpio p) ODR"
  using assms by - (rule bit_word_eqI, auto simp add: bit_or_iff bit_mask16 pin_level_def)

lemma on_off_restores:
  assumes "single_bit_pin p" and "pin_level st p"
  shows "run (MICROPY_HW_LED_ON p @ MICROPY_HW_LED_OFF p) st = st"
  using set_bit_idle [OF assms] by (simp add: run_append run_ON run_OFF or_mask_absorb)

lemma on_off_on_off_restores:
  assumes "single_bit_pin p" and "pin_level st p"
  shows "run (MICROPY_HW_LED_ON p @ MICROPY_HW_LED_OFF p
            @ MICROPY_HW_LED_ON p @ MICROPY_HW_LED_OFF p) st = st"
  using set_bit_idle [OF assms] by (simp add: run_append run_ON run_OFF or_mask_absorb)

lemma frame_ON:
  assumes "single_bit_pin p" and "\<not> (g = gpio p \<and> r = ODR \<and> k = pin p)"
  shows "bit (run (MICROPY_HW_LED_ON p) st g r) k = bit (st g r) k"
  using assms by (auto simp add: run_ON bit_and_iff bit_not_iff bit_mask16 dest: bit_imp_le_length)

lemma frame_OFF:
  assumes "single_bit_pin p" and "\<not> (g = gpio p \<and> r = ODR \<and> k = pin p)"
  shows "bit (run (MICROPY_HW_LED_OFF p) st g r) k = bit (st g r) k"
  using assms by (auto simp add: run_OFF bit_or_iff bit_mask16)

text \<open>
  C6: for every LED of the table, the deasserted level is the level \<^verbatim>\<open>MICROPY_HW_LED_OFF\<close>
  drives (high) and \<^verbatim>\<open>MICROPY_HW_LED_ON\<close> drives the other one; after any assert-then-deassert
  pair the pin is at the deasserted level; and from a state in which the pin is at the
  deasserted level, the sequence assert, deassert, assert, deassert returns the pin to that
  level (it returns every register of every port to its initial value).
\<close>

theorem led_on_off_on_off_returns:
  "\<forall>e \<in> set MICROPY_HW_LED_MAPPING. \<forall>st.
      pin_level (run (MICROPY_HW_LED_OFF (led_pin e)) st) (led_pin e)
    \<and> \<not> pin_level (run (MICROPY_HW_LED_ON (led_pin e)) st) (led_pin e)
    \<and> pin_level (run (MICROPY_HW_LED_ON (led_pin e) @ MICROPY_HW_LED_OFF (led_pin e)) st)
        (led_pin e)
    \<and> (pin_level st (led_pin e) \<longrightarrow>
        pin_level (run (MICROPY_HW_LED_ON (led_pin e) @ MICROPY_HW_LED_OFF (led_pin e)
                      @ MICROPY_HW_LED_ON (led_pin e) @ MICROPY_HW_LED_OFF (led_pin e)) st)
          (led_pin e) = pin_level st (led_pin e)
        \<and> run (MICROPY_HW_LED_ON (led_pin e) @ MICROPY_HW_LED_OFF (led_pin e)
              @ MICROPY_HW_LED_ON (led_pin e) @ MICROPY_HW_LED_OFF (led_pin e)) st = st)"
proof (intro ballI allI conjI impI)
  fix e st
  assume e: "e \<in> set MICROPY_HW_LED_MAPPING"
  then have p: "single_bit_pin (led_pin e)"
    by (rule led_pins_single_bit)
  show "pin_level (run (MICROPY_HW_LED_OFF (led_pin e)) st) (led_pin e)"
    using p by (rule level_after_OFF)
  show "\<not> pin_level (run (MICROPY_HW_LED_ON (led_pin e)) st) (led_pin e)"
    using p by (rule level_after_ON)
  show "pin_level (run (MICROPY_HW_LED_ON (led_pin e) @ MICROPY_HW_LED_OFF (led_pin e)) st)
      (led_pin e)"
    using p by (simp add: run_append level_after_OFF)
  assume h: "pin_level st (led_pin e)"
  show r: "run (MICROPY_HW_LED_ON (led_pin e) @ MICROPY_HW_LED_OFF (led_pin e)
      @ MICROPY_HW_LED_ON (led_pin e) @ MICROPY_HW_LED_OFF (led_pin e)) st = st"
    using p h by (rule on_off_on_off_restores)
  show "pin_level (run (MICROPY_HW_LED_ON (led_pin e) @ MICROPY_HW_LED_OFF (led_pin e)
      @ MICROPY_HW_LED_ON (led_pin e) @ MICROPY_HW_LED_OFF (led_pin e)) st) (led_pin e)
      = pin_level st (led_pin e)"
    by (simp only: r)
qed

theorem led_on_off_on_off_returns_witness:
  "pin_level ((\<lambda>g r. 0)(GPIOA := (\<lambda>r. 0)(ODR := 0x100))) pin_A8
   \<and> \<not> pin_level (run (MICROPY_HW_LED_ON pin_A8)
          ((\<lambda>g r. 0)(GPIOA := (\<lambda>r. 0)(ODR := 0x100)))) pin_A8
   \<and> run (MICROPY_HW_LED_ON pin_A8 @ MICROPY_HW_LED_OFF pin_A8
          @ MICROPY_HW_LED_ON pin_A8 @ MICROPY_HW_LED_OFF pin_A8)
        ((\<lambda>g r. 0)(GPIOA := (\<lambda>r. 0)(ODR := 0x100)))
      = (\<lambda>g r. 0)(GPIOA := (\<lambda>r. 0)(ODR := 0x100))"
proof -
  let ?e = "\<lparr>base = pyb_led_type, led_id = 1, led_pin = pin_A8\<rparr>"
  let ?st = "(\<lambda>g r. 0)(GPIOA := (\<lambda>r. 0)(ODR := 0x100)) :: gpio_state"
  have m: "?e \<in> set MICROPY_HW_LED_MAPPING"
    by (simp add: MICROPY_HW_LED_MAPPING_def)
  have h: "pin_level ?st pin_A8"
    by (simp add: pin_level_def pin_defs)
  from led_on_off_on_off_returns [rule_format, OF m, of ?st] h show ?thesis
    by simp
qed

text \<open>
  C7: for every LED of the table, each of \<^verbatim>\<open>MICROPY_HW_LED_ON\<close> and \<^verbatim>\<open>MICROPY_HW_LED_OFF\<close>
  is exactly one register access, a store of the pin's mask (the single bit of the pin's
  number) to a field of the pin's own port, with no load and so no read-modify-write; the
  two store to two distinct fields, \<^verbatim>\<open>BSRRH\<close> and \<^verbatim>\<open>BSRRL\<close>; and neither changes any bit
  other than the pin's own bit of its port's output data register: the other pins of the
  port, the other registers of the port and the other ports keep their values.
\<close>

theorem led_on_off_single_store:
  "\<forall>e \<in> set MICROPY_HW_LED_MAPPING.
      MICROPY_HW_LED_ON (led_pin e) = [Store (gpio (led_pin e)) BSRRH (pin_mask (led_pin e))]
    \<and> MICROPY_HW_LED_OFF (led_pin e) = [Store (gpio (led_pin e)) BSRRL (pin_mask (led_pin e))]
    \<and> pin (led_pin e) < 16
    \<and> pin_mask (led_pin e) = push_bit (pin (led_pin e)) 1
    \<and> length (MICROPY_HW_LED_ON (led_pin e)) = 1
    \<and> list_all is_Store (MICROPY_HW_LED_ON (led_pin e))
    \<and> length (MICROPY_HW_LED_OFF (led_pin e)) = 1
    \<and> list_all is_Store (MICROPY_HW_LED_OFF (led_pin e))
    \<and> map access_reg (MICROPY_HW_LED_ON (led_pin e)) = [BSRRH]
    \<and> map access_reg (MICROPY_HW_LED_OFF (led_pin e)) = [BSRRL]
    \<and> set (map access_reg (MICROPY_HW_LED_ON (led_pin e)))
        \<inter> set (map access_reg (MICROPY_HW_LED_OFF (led_pin e))) = {}
    \<and> (\<forall>st g r k. \<not> (g = gpio (led_pin e) \<and> r = ODR \<and> k = pin (led_pin e)) \<longrightarrow>
          bit (run (MICROPY_HW_LED_ON (led_pin e)) st g r) k = bit (st g r) k
        \<and> bit (run (MICROPY_HW_LED_OFF (led_pin e)) st g r) k = bit (st g r) k)"
proof (intro ballI conjI allI impI)
  fix e st g r k
  assume "e \<in> set MICROPY_HW_LED_MAPPING"
  then have p: "single_bit_pin (led_pin e)"
    by (rule led_pins_single_bit)
  show "pin (led_pin e) < 16"
    using p by (simp add: single_bit_pin_def)
  show "pin_mask (led_pin e) = push_bit (pin (led_pin e)) 1"
    using p by (simp add: single_bit_pin_def)
  assume other: "\<not> (g = gpio (led_pin e) \<and> r = ODR \<and> k = pin (led_pin e))"
  show "bit (run (MICROPY_HW_LED_ON (led_pin e)) st g r) k = bit (st g r) k"
    using p other by (rule frame_ON)
  show "bit (run (MICROPY_HW_LED_OFF (led_pin e)) st g r) k = bit (st g r) k"
    using p other by (rule frame_OFF)
qed (simp_all add: MICROPY_HW_LED_ON_def MICROPY_HW_LED_OFF_def access_reg_def)

theorem led_on_off_single_store_witness:
  "MICROPY_HW_LED_ON pin_A8 = [Store GPIOA BSRRH 0x100]
   \<and> MICROPY_HW_LED_OFF pin_A8 = [Store GPIOA BSRRL 0x100]
   \<and> bit (run (MICROPY_HW_LED_ON pin_A8) (\<lambda>g r. 0x500) GPIOA ODR) 10
   \<and> \<not> bit (run (MICROPY_HW_LED_OFF pin_A8) (\<lambda>g r. 0) GPIOA ODR) 10
   \<and> run (MICROPY_HW_LED_ON pin_A8) (\<lambda>g r. 0x500) GPIOA MODER = 0x500
   \<and> run (MICROPY_HW_LED_OFF pin_A8) (\<lambda>g r. 0) GPIOC ODR = 0"
proof -
  let ?e = "\<lparr>base = pyb_led_type, led_id = 1, led_pin = pin_A8\<rparr>"
  have m: "?e \<in> set MICROPY_HW_LED_MAPPING"
    by (simp add: MICROPY_HW_LED_MAPPING_def)
  have s: "MICROPY_HW_LED_ON (led_pin ?e)
        = [Store (gpio (led_pin ?e)) BSRRH (pin_mask (led_pin ?e))]
      \<and> MICROPY_HW_LED_OFF (led_pin ?e)
        = [Store (gpio (led_pin ?e)) BSRRL (pin_mask (led_pin ?e))]"
    using led_on_off_single_store [THEN bspec, OF m] by blast
  have a: "\<not> (GPIOA = gpio (led_pin ?e) \<and> ODR = ODR \<and> (10::nat) = pin (led_pin ?e))"
    by (simp add: pin_defs)
  have f: "\<forall>st g r k. \<not> (g = gpio (led_pin ?e) \<and> r = ODR \<and> k = pin (led_pin ?e)) \<longrightarrow>
          bit (run (MICROPY_HW_LED_ON (led_pin ?e)) st g r) k = bit (st g r) k
        \<and> bit (run (MICROPY_HW_LED_OFF (led_pin ?e)) st g r) k = bit (st g r) k"
    using led_on_off_single_store [THEN bspec, OF m] by blast
  have "bit (run (MICROPY_HW_LED_ON pin_A8) (\<lambda>g r. 0x500) GPIOA ODR) 10"
    using f [rule_format, OF a, of "\<lambda>g r. 0x500"] by simp
  moreover have "\<not> bit (run (MICROPY_HW_LED_OFF pin_A8) (\<lambda>g r. 0) GPIOA ODR) 10"
    using f [rule_format, OF a, of "\<lambda>g r. 0"] by simp
  moreover have "run (MICROPY_HW_LED_ON pin_A8) (\<lambda>g r. 0x500) GPIOA MODER = 0x500"
    and "run (MICROPY_HW_LED_OFF pin_A8) (\<lambda>g r. 0) GPIOC ODR = 0"
    by (simp_all add: run_ON run_OFF pin_defs)
  ultimately show ?thesis
    using s by (simp add: pin_defs)
qed

text \<open>
  C9: for every LED of the table, \<^verbatim>\<open>MICROPY_HW_LED_ON\<close> stores the pin's mask to \<^verbatim>\<open>BSRRH\<close>
  and \<^verbatim>\<open>MICROPY_HW_LED_OFF\<close> stores it to \<^verbatim>\<open>BSRRL\<close>; \<^verbatim>\<open>BSRRH\<close> being the reset half and
  \<^verbatim>\<open>BSRRL\<close> the set half of the port's set/reset register, switching an LED on drives its
  pin low and switching it off drives its pin high, from every state of the ports.
\<close>

theorem led_on_is_electrical_low:
  "\<forall>e \<in> set MICROPY_HW_LED_MAPPING.
      MICROPY_HW_LED_ON (led_pin e) = [Store (gpio (led_pin e)) BSRRH (pin_mask (led_pin e))]
    \<and> MICROPY_HW_LED_OFF (led_pin e) = [Store (gpio (led_pin e)) BSRRL (pin_mask (led_pin e))]
    \<and> (\<forall>regs v. reg_store regs BSRRH v ODR = regs ODR AND NOT (take_bit 16 v)
              \<and> reg_store regs BSRRL v ODR = regs ODR OR take_bit 16 v)
    \<and> (\<forall>st. \<not> pin_level (run (MICROPY_HW_LED_ON (led_pin e)) st) (led_pin e)
           \<and> pin_level (run (MICROPY_HW_LED_OFF (led_pin e)) st) (led_pin e))"
proof (intro ballI conjI allI)
  fix e st
  assume "e \<in> set MICROPY_HW_LED_MAPPING"
  then have p: "single_bit_pin (led_pin e)"
    by (rule led_pins_single_bit)
  show "\<not> pin_level (run (MICROPY_HW_LED_ON (led_pin e)) st) (led_pin e)"
    using p by (rule level_after_ON)
  show "pin_level (run (MICROPY_HW_LED_OFF (led_pin e)) st) (led_pin e)"
    using p by (rule level_after_OFF)
qed (simp_all add: MICROPY_HW_LED_ON_def MICROPY_HW_LED_OFF_def)

theorem led_on_is_electrical_low_witness:
  "MICROPY_HW_LED_ON pin_C5 = [Store GPIOC BSRRH 0x20]
   \<and> MICROPY_HW_LED_OFF pin_C5 = [Store GPIOC BSRRL 0x20]
   \<and> \<not> pin_level (run (MICROPY_HW_LED_ON pin_C5) (\<lambda>g r. 0xFFFF)) pin_C5
   \<and> pin_level (run (MICROPY_HW_LED_OFF pin_C5) (\<lambda>g r. 0)) pin_C5"
proof -
  let ?e = "\<lparr>base = pyb_led_type, led_id = 3, led_pin = pin_C5\<rparr>"
  have m: "?e \<in> set MICROPY_HW_LED_MAPPING"
    by (simp add: MICROPY_HW_LED_MAPPING_def)
  have f: "\<forall>st. \<not> pin_level (run (MICROPY_HW_LED_ON (led_pin ?e)) st) (led_pin ?e)
      \<and> pin_level (run (MICROPY_HW_LED_OFF (led_pin ?e)) st) (led_pin ?e)"
    using led_on_is_electrical_low [THEN bspec, OF m] by blast
  have "\<not> pin_level (run (MICROPY_HW_LED_ON pin_C5) (\<lambda>g r. 0xFFFF)) pin_C5"
    using f [rule_format, of "\<lambda>g r. 0xFFFF"] by simp
  moreover have "pin_level (run (MICROPY_HW_LED_OFF pin_C5) (\<lambda>g r. 0)) pin_C5"
    using f [rule_format, of "\<lambda>g r. 0"] by simp
  ultimately show ?thesis
    by (simp add: MICROPY_HW_LED_ON_def MICROPY_HW_LED_OFF_def pin_defs)
qed

section \<open>The pins of the bindings\<close>

text \<open>
  C8: the pins the board binds are pairwise distinct: the switch pin \<^verbatim>\<open>pin_A13\<close>, the four
  LED pins \<^verbatim>\<open>pin_A8\<close>, \<^verbatim>\<open>pin_A10\<close>, \<^verbatim>\<open>pin_C4\<close>, \<^verbatim>\<open>pin_C5\<close> and the SD card detect pin
  \<^verbatim>\<open>pin_C13\<close>, as pin objects and as (port, number) pairs.
\<close>

theorem bound_pins_distinct:
  "MICROPY_HW_USRSW_PIN # map led_pin MICROPY_HW_LED_MAPPING @ [MICROPY_HW_SDCARD_DETECT_PIN]
     = [pin_A13, pin_A8, pin_A10, pin_C4, pin_C5, pin_C13]
   \<and> distinct (MICROPY_HW_USRSW_PIN # map led_pin MICROPY_HW_LED_MAPPING
        @ [MICROPY_HW_SDCARD_DETECT_PIN])
   \<and> distinct (map (\<lambda>p. (gpio p, pin p)) (MICROPY_HW_USRSW_PIN
        # map led_pin MICROPY_HW_LED_MAPPING @ [MICROPY_HW_SDCARD_DETECT_PIN]))"
  by (simp add: MICROPY_HW_USRSW_PIN_def MICROPY_HW_SDCARD_DETECT_PIN_def
      MICROPY_HW_LED_MAPPING_def pin_defs)

text \<open>
  C10: the logical indices occurring in the four-entry LED table are exactly 1, 2 and 3:
  index 3 occurs in two entries, bound to the two different pins \<^verbatim>\<open>pin_C4\<close> and \<^verbatim>\<open>pin_C5\<close>,
  and index 4 occurs in none, so an index does not determine a pin; each index a mandatory
  role refers to (1 and 2) occurs in exactly one entry.
\<close>

theorem led_index_three_twice:
  "length MICROPY_HW_LED_MAPPING = 4
   \<and> set (map led_id MICROPY_HW_LED_MAPPING) = {1, 2, 3}
   \<and> map led_pin (led_entries 3) = [pin_C4, pin_C5]
   \<and> pin_C4 \<noteq> pin_C5
   \<and> led_entries 4 = []
   \<and> \<not> distinct (map led_id MICROPY_HW_LED_MAPPING)
   \<and> map led_pin (led_entries PYB_LED_STORAGE1) = [pin_A8]
   \<and> map led_pin (led_entries PYB_LED_STORAGE2) = [pin_A10]
   \<and> map led_pin (led_entries PYB_LED_ERROR1) = [pin_A8]
   \<and> map led_pin (led_entries PYB_LED_ERROR2) = [pin_A10]"
  by (simp add: PYB_LED_STORAGE1_def PYB_LED_STORAGE2_def PYB_LED_ERROR1_def
      PYB_LED_ERROR2_def led_entries_def MICROPY_HW_LED_MAPPING_def pin_defs)

end
